theory Spec2Isabelle
  imports Complex_Main
begin

section \<open>Cells and data frames\<close>

text \<open>
  Every CSV column is read as text (\<^verbatim>\<open>infer_schema_length=0\<close>) and the empty field
  is the null value (\<^verbatim>\<open>null_values=[""]\<close>).  The only other cell kind the processor
  produces is the Float64 of a numeric column; its value is kept as the exact decimal
  the text denotes, the rounding to a binary double is not part of the model.
\<close>

datatype cell = Null | Str string | Float64 rat

record dataframe =
  columns :: "string list"
  rows :: "cell list list"

definition height :: "dataframe \<Rightarrow> nat" where
  "height df = length (rows df)"

text \<open>
  The library keeps two invariants on every frame: column names are distinct, and every
  row has one cell per column.
\<close>

definition valid_frame :: "dataframe \<Rightarrow> bool" where
  "valid_frame df \<longleftrightarrow>
     distinct (columns df) \<and> list_all (\<lambda>r. length r = length (columns df)) (rows df)"

fun index_of :: "'a \<Rightarrow> 'a list \<Rightarrow> nat option" where
  "index_of x [] = None"
| "index_of x (y # ys) = (if x = y then Some 0 else map_option Suc (index_of x ys))"

text \<open>
  \<^verbatim>\<open>df.with_columns(expr.alias(col))\<close> for an expression over the column \<open>col\<close>
  itself: the column is replaced cell by cell.  Every caller tests
  \<^verbatim>\<open>col in df.columns\<close> first, so the missing column is not an error branch here.
\<close>

definition with_column :: "string \<Rightarrow> (cell \<Rightarrow> cell) \<Rightarrow> dataframe \<Rightarrow> dataframe" where
  "with_column col f df =
     (case index_of col (columns df) of
        None \<Rightarrow> df
      | Some j \<Rightarrow> df\<lparr>rows := map (\<lambda>r. r[j := f (r ! j)]) (rows df)\<rparr>)"

section \<open>The schema catalogue of processor.py\<close>

definition FILE_MAPPINGS :: "(string \<times> string) list" where
  "FILE_MAPPINGS =
    [(''CNAECSV'', ''cnaes''),
     (''MOTICSV'', ''motivos''),
     (''MUNICCSV'', ''municipios''),
     (''NATJUCSV'', ''naturezas_juridicas''),
     (''PAISCSV'', ''paises''),
     (''QUALSCSV'', ''qualificacoes_socios''),
     (''EMPRECSV'', ''empresas''),
     (''ESTABELE'', ''estabelecimentos''),
     (''SOCIOCSV'', ''socios''),
     (''SIMPLESCSV'', ''dados_simples'')]"

text \<open>
  Each entry of \<^verbatim>\<open>COLUMN_MAPPINGS\<close> is a dictionary whose keys are the positions
  \<open>0, 1, \<dots>\<close> in order; it is written as the list of its values, so that position
  \<open>i\<close> is a key exactly when \<open>i\<close> is below the length.
\<close>

definition COLUMN_MAPPINGS :: "(string \<times> string list) list" where
  "COLUMN_MAPPINGS =
    [(''CNAECSV'', [''codigo'', ''descricao'']),
     (''MOTICSV'', [''codigo'', ''descricao'']),
     (''MUNICCSV'', [''codigo'', ''descricao'']),
     (''NATJUCSV'', [''codigo'', ''descricao'']),
     (''PAISCSV'', [''codigo'', ''descricao'']),
     (''QUALSCSV'', [''codigo'', ''descricao'']),
     (''EMPRECSV'',
        [''cnpj_basico'', ''razao_social'', ''natureza_juridica'',
         ''qualificacao_responsavel'', ''capital_social'', ''porte'',
         ''ente_federativo_responsavel'']),
     (''ESTABELE'',
        [''cnpj_basico'', ''cnpj_ordem'', ''cnpj_dv'', ''identificador_matriz_filial'',
         ''nome_fantasia'', ''situacao_cadastral'', ''data_situacao_cadastral'',
         ''motivo_situacao_cadastral'', ''nome_cidade_exterior'', ''pais'',
         ''data_inicio_atividade'', ''cnae_fiscal_principal'', ''cnae_fiscal_secundaria'',
         ''tipo_logradouro'', ''logradouro'', ''numero'', ''complemento'', ''bairro'',
         ''cep'', ''uf'', ''municipio'', ''ddd_1'', ''telefone_1'', ''ddd_2'',
         ''telefone_2'', ''ddd_fax'', ''fax'', ''correio_eletronico'',
         ''situacao_especial'', ''data_situacao_especial'']),
     (''SOCIOCSV'',
        [''cnpj_basico'', ''identificador_de_socio'', ''nome_socio'',
         ''cnpj_cpf_do_socio'', ''qualificacao_do_socio'', ''data_entrada_sociedade'',
         ''pais'', ''representante_legal'', ''nome_do_representante'',
         ''qualificacao_do_representante_legal'', ''faixa_etaria'']),
     (''SIMPLESCSV'',
        [''cnpj_basico'', ''opcao_pelo_simples'', ''data_opcao_pelo_simples'',
         ''data_exclusao_do_simples'', ''opcao_pelo_mei'', ''data_opcao_pelo_mei'',
         ''data_exclusao_do_mei''])]"

definition NUMERIC_COLUMNS :: "(string \<times> string list) list" where
  "NUMERIC_COLUMNS =
    [(''EMPRECSV'', [''capital_social'']),
     (''ESTABELE'', []),
     (''SIMPLESCSV'', []),
     (''SOCIOCSV'', [])]"

definition DATE_COLUMNS :: "(string \<times> string list) list" where
  "DATE_COLUMNS =
    [(''EMPRECSV'', []),
     (''ESTABELE'',
        [''data_situacao_cadastral'', ''data_inicio_atividade'', ''data_situacao_especial'']),
     (''SIMPLESCSV'',
        [''data_opcao_pelo_simples'', ''data_exclusao_do_simples'',
         ''data_opcao_pelo_mei'', ''data_exclusao_do_mei'']),
     (''SOCIOCSV'', [''data_entrada_sociedade''])]"

text \<open>The value of each entry is (source, ref_type, code_column).\<close>

definition REFERENCE_ENHANCEMENTS :: "(string \<times> string \<times> string \<times> string) list" where
  "REFERENCE_ENHANCEMENTS =
    [(''MOTICSV'', ''serpro'', ''motivos'', ''codigo''),
     (''PAISCSV'', ''hardcoded'', ''paises'', ''codigo'')]"

text \<open>\<^verbatim>\<open>d.get(k, default)\<close> on a dictionary written as an association list.\<close>

definition dict_get :: "('k \<times> 'v) list \<Rightarrow> 'k \<Rightarrow> 'v \<Rightarrow> 'v" where
  "dict_get d k dflt = (case map_of d k of None \<Rightarrow> dflt | Some v \<Rightarrow> v)"

section \<open>The record transformer\<close>

subsection \<open>Text helpers\<close>

definition digit_chars :: string where
  "digit_chars = ''0123456789''"

fun str_of_nat :: "nat \<Rightarrow> string" where
  "str_of_nat n =
     (if n < 10 then [digit_chars ! n] else str_of_nat (n div 10) @ [digit_chars ! (n mod 10)])"

declare str_of_nat.simps [simp del]

text \<open>\<^verbatim>\<open>str.replace(",", ".")\<close>: the first match only is replaced.\<close>

fun str_replace_first :: "char \<Rightarrow> char \<Rightarrow> string \<Rightarrow> string" where
  "str_replace_first a b [] = []"
| "str_replace_first a b (c # cs) = (if c = a then b # cs else c # str_replace_first a b cs)"

definition is_digit :: "char \<Rightarrow> bool" where
  "is_digit c \<longleftrightarrow> c \<in> set digit_chars"

definition digit_value :: "char \<Rightarrow> nat" where
  "digit_value c = (case index_of c digit_chars of None \<Rightarrow> 0 | Some d \<Rightarrow> d)"

definition digits_value :: "string \<Rightarrow> nat" where
  "digits_value ds = foldl (\<lambda>acc c. 10 * acc + digit_value c) 0 ds"

definition split_sign :: "string \<Rightarrow> bool \<times> string" where
  "split_sign s =
     (case s of
        [] \<Rightarrow> (False, s)
      | c # r \<Rightarrow>
          if c = CHR ''-'' then (True, r)
          else if c = CHR ''+'' then (False, r)
          else (False, s))"

text \<open>
  The non-strict cast of a text to Float64, on decimal literals: an optional sign, digits
  with an optional fraction (at least one digit in all), an optional exponent.  Any other
  text has no value, which the non-strict cast turns into null instead of an error.
\<close>

definition parse_exponent :: "string \<Rightarrow> int option" where
  "parse_exponent s =
     (case s of
        [] \<Rightarrow> Some 0
      | c # r \<Rightarrow>
          if c = CHR ''e'' \<or> c = CHR ''E'' then
            (let (neg, ds) = split_sign r in
             if ds \<noteq> [] \<and> list_all is_digit ds
             then Some (if neg then - int (digits_value ds) else int (digits_value ds))
             else None)
          else None)"

definition cast_float64 :: "string \<Rightarrow> rat option" where
  "cast_float64 s =
     (let (neg, body) = split_sign s;
          ip = takeWhile is_digit body;
          r1 = dropWhile is_digit body;
          (fp, r2) =
            (case r1 of
               [] \<Rightarrow> ([], [])
             | c # r \<Rightarrow>
                 if c = CHR ''.'' then (takeWhile is_digit r, dropWhile is_digit r)
                 else ([], r1))
      in if ip = [] \<and> fp = [] then None
         else
           (case parse_exponent r2 of
              None \<Rightarrow> None
            | Some e \<Rightarrow>
                (let m = of_nat (digits_value (ip @ fp)) / (10 ^ length fp);
                     v = (if 0 \<le> e then m * 10 ^ nat e else m / 10 ^ nat (- e))
                 in Some (if neg then - v else v))))"

definition is_space :: "char \<Rightarrow> bool" where
  "is_space c \<longleftrightarrow> c \<in> set [CHR '' '', CHR 0x09, CHR 0x0A, CHR 0x0B, CHR 0x0C, CHR 0x0D]"

text \<open>\<^verbatim>\<open>str.strip_chars()\<close> with no argument: white space goes from both ends.\<close>

definition strip_chars :: "string \<Rightarrow> string" where
  "strip_chars s = rev (dropWhile is_space (rev (dropWhile is_space s)))"

text \<open>
  \<^verbatim>\<open>str.zfill(n)\<close>: zeros are put in front until the text has \<open>n\<close> characters, after a
  leading sign when there is one.
\<close>

definition zfill :: "nat \<Rightarrow> string \<Rightarrow> string" where
  "zfill n s =
     (if n \<le> length s then s
      else
        (case s of
           [] \<Rightarrow> replicate n CHR ''0''
         | c # r \<Rightarrow>
             if c = CHR ''-'' \<or> c = CHR ''+''
             then c # replicate (n - length s) CHR ''0'' @ r
             else replicate (n - length s) CHR ''0'' @ s))"

subsection \<open>The three cell rules\<close>

text \<open>
  \<^verbatim>\<open>pl.col(col).str.replace(",", ".").cast(pl.Float64, strict=False)\<close>.  A null stays
  null.  The text namespace is only defined on text columns; a column is converted once
  (the catalogue names each column once), so the Float64 case is never reached and is
  left as it is.
\<close>

fun numeric_cell :: "cell \<Rightarrow> cell" where
  "numeric_cell Null = Null"
| "numeric_cell (Str s) =
     (case cast_float64 (str_replace_first CHR '','' CHR ''.'' s) of
        None \<Rightarrow> Null
      | Some v \<Rightarrow> Float64 v)"
| "numeric_cell (Float64 v) = Float64 v"

text \<open>
  \<^verbatim>\<open>pl.when(pl.col(col) == "0").then(None).otherwise(pl.col(col))\<close>: the comparison of
  a null is null, which selects the \<^verbatim>\<open>otherwise\<close> branch.
\<close>

fun date_cell :: "cell \<Rightarrow> cell" where
  "date_cell (Str s) = (if s = ''0'' then Null else Str s)"
| "date_cell c = c"

text \<open>
  \<^verbatim>\<open>pl.when(is_not_null & (col != "")).then(col.cast(Utf8).str.strip_chars().str.zfill(3))
  .otherwise(col)\<close>.
\<close>

fun country_cell :: "cell \<Rightarrow> cell" where
  "country_cell (Str s) = (if s \<noteq> [] then Str (zfill 3 (strip_chars s)) else Str s)"
| "country_cell c = c"

subsection \<open>The transformer\<close>

definition transform_country_codes :: "dataframe \<Rightarrow> dataframe" where
  "transform_country_codes df =
     (if ''pais'' \<in> set (columns df) then with_column ''pais'' country_cell df else df)"

text \<open>\<^verbatim>\<open>new_columns\<close> of the renaming loop, for a frame of \<open>n\<close> columns.\<close>

definition new_columns :: "string list \<Rightarrow> nat \<Rightarrow> string list" where
  "new_columns col_mapping n =
     map (\<lambda>i. if i < length col_mapping then col_mapping ! i
               else ''column_'' @ str_of_nat i) [0..<n]"

text \<open>
  \<^verbatim>\<open>df.rename(dict(zip(df.columns, new_columns)))\<close>: every column is looked up in
  the dictionary.  A frame's names are distinct, so the first pair found is the only one.
\<close>

definition rename :: "(string \<times> string) list \<Rightarrow> dataframe \<Rightarrow> dataframe" where
  "rename d df = df\<lparr>columns := map (\<lambda>c. dict_get d c c) (columns df)\<rparr>"

definition convert_columns :: "(cell \<Rightarrow> cell) \<Rightarrow> string list \<Rightarrow> dataframe \<Rightarrow> dataframe" where
  "convert_columns f cols df =
     fold (\<lambda>col d. if col \<in> set (columns d) then with_column col f d else d) cols df"

definition apply_transformations :: "dataframe \<Rightarrow> string \<Rightarrow> dataframe" where
  "apply_transformations df file_type =
     (let col_mapping = dict_get COLUMN_MAPPINGS file_type [];
          df1 = (if col_mapping \<noteq> []
                 then rename (zip (columns df) (new_columns col_mapping (length (columns df)))) df
                 else df);
          df2 = convert_columns numeric_cell (dict_get NUMERIC_COLUMNS file_type []) df1;
          df3 = convert_columns date_cell (dict_get DATE_COLUMNS file_type []) df2
      in if file_type = ''ESTABELE'' then transform_country_codes df3 else df3)"

section \<open>The SQLite adapter\<close>

text \<open>
  A stored row is the list of (column, value) pairs of one \<^verbatim>\<open>INSERT\<close>.  The adapter
  state holds the connection flag, the tables, the primary-key columns of each table (the
  schema is created outside the adapter) and the statements executed so far.
\<close>

type_synonym stored_row = "(string \<times> cell) list"

datatype statement =
    InsertOrReplace string "string list" "cell list list"
  | SelectCodigo string
  | SelectCount string

record adapter =
  connected :: bool
  tables :: "string \<Rightarrow> stored_row list"
  pkey :: "string \<Rightarrow> string list"
  executed :: "statement list"

definition connect :: "adapter \<Rightarrow> adapter" where
  "connect a = (if \<not> connected a then a\<lparr>connected := True\<rparr> else a)"

definition row_key :: "string list \<Rightarrow> stored_row \<Rightarrow> cell option list" where
  "row_key pk r = map (map_of r) pk"

text \<open>
  \<^verbatim>\<open>INSERT OR REPLACE\<close> of one row: the rows that hold the same primary key are
  deleted, then the row is inserted.  A table without a primary key has no conflict.
\<close>

definition insert_or_replace :: "string list \<Rightarrow> stored_row \<Rightarrow> stored_row list \<Rightarrow> stored_row list" where
  "insert_or_replace pk r tbl =
     (if pk = [] then tbl @ [r]
      else filter (\<lambda>r'. row_key pk r' \<noteq> row_key pk r) tbl @ [r])"

definition executemany :: "string \<Rightarrow> string list \<Rightarrow> cell list list \<Rightarrow> adapter \<Rightarrow> adapter" where
  "executemany table cols vals a =
     a\<lparr>tables := (tables a)
          (table := fold (insert_or_replace (pkey a table)) (map (zip cols) vals) (tables a table)),
        executed := executed a @ [InsertOrReplace table cols vals]\<rparr>"

definition bulk_upsert :: "dataframe \<Rightarrow> string \<Rightarrow> adapter \<Rightarrow> adapter" where
  "bulk_upsert df table a =
     (if height df = 0 then a
      else executemany table (columns df) (rows df) (connect a))"


definition select_codigo :: "string \<Rightarrow> adapter \<Rightarrow> cell list \<times> adapter" where
  "select_codigo table a =
     (map (\<lambda>r. case map_of r ''codigo'' of None \<Rightarrow> Null | Some v \<Rightarrow> v) (tables a table),
      a\<lparr>executed := executed a @ [SelectCodigo table]\<rparr>)"

definition select_count :: "string \<Rightarrow> adapter \<Rightarrow> nat \<times> adapter" where
  "select_count table a =
     (length (tables a table), a\<lparr>executed := executed a @ [SelectCount table]\<rparr>)"

section \<open>Reading the normalized file\<close>

text \<open>
  A normalized file as the CSV reader sees it: the number of fields of a line and the
  records, in file order.  \<^verbatim>\<open>pl.read_csv(..., has_header=False, skip_rows=k, n_rows=n)\<close>
  names the columns \<open>column_1, column_2, \<dots>\<close> and returns the window of at most \<open>n\<close>
  records after the first \<open>k\<close>; a window past the end has no rows, which is the case the
  chunked loader tests with \<^verbatim>\<open>len(chunk_df) == 0\<close>.
\<close>

record csv_file =
  ncols :: nat
  records :: "cell list list"

definition default_columns :: "nat \<Rightarrow> string list" where
  "default_columns n = map (\<lambda>i. ''column_'' @ str_of_nat (Suc i)) [0..<n]"

definition read_csv :: "csv_file \<Rightarrow> nat \<Rightarrow> nat option \<Rightarrow> dataframe" where
  "read_csv f skip_rows n_rows =
     \<lparr>columns = default_columns (ncols f),
      rows = (case n_rows of
                None \<Rightarrow> drop skip_rows (records f)
              | Some n \<Rightarrow> take n (drop skip_rows (records f)))\<rparr>"

section \<open>Errors\<close>

datatype error =
    FileNotFoundError
  | OSError
  | ValueError
  | KeyError
  | ImportError
  | ColumnNotFoundError
  | ShapeError
  | SourceError

section \<open>The reference reconciler\<close>

text \<open>
  Modelled from the spec: the module \<^verbatim>\<open>src.reference_data\<close> with its
  \<^verbatim>\<open>ReferenceDataManager\<close> is not among the sources.  The import may fail, the
  constructor may fail, and each external code list either raises, yields nothing, or
  yields (code, description) pairs.  \<^verbatim>\<open>diff_motivos_data\<close> and
  \<^verbatim>\<open>diff_paises_data\<close> compute the set difference of the external codes and the
  existing set: every external code that is not in the existing set, once, with no other
  field than code and description.
\<close>

datatype source_state = SourceRaises | SourceNone | SourceCodes "(string \<times> string) list"

record reference_data =
  importable :: bool
  constructible :: bool
  serpro_motivos :: source_state
  hardcoded_paises :: source_state

fun first_per_code :: "(string \<times> string) list \<Rightarrow> (string \<times> string) list" where
  "first_per_code [] = []"
| "first_per_code (p # ps) = p # first_per_code (filter (\<lambda>q. fst q \<noteq> fst p) ps)"

definition diff_data :: "source_state \<Rightarrow> cell set \<Rightarrow> error + dataframe option" where
  "diff_data src existing_codes =
     (case src of
        SourceRaises \<Rightarrow> Inl SourceError
      | SourceNone \<Rightarrow> Inr None
      | SourceCodes ext \<Rightarrow>
          Inr (Some \<lparr>columns = [''codigo'', ''descricao''],
                     rows = map (\<lambda>p. [Str (fst p), Str (snd p)])
                              (filter (\<lambda>p. Str (fst p) \<notin> existing_codes)
                                 (first_per_code ext))\<rparr>))"

definition diff_motivos_data :: "reference_data \<Rightarrow> cell set \<Rightarrow> error + dataframe option" where
  "diff_motivos_data rd = diff_data (serpro_motivos rd)"

definition diff_paises_data :: "reference_data \<Rightarrow> cell set \<Rightarrow> error + dataframe option" where
  "diff_paises_data rd = diff_data (hardcoded_paises rd)"

text \<open>\<^verbatim>\<open>df[name].to_list()\<close>: the missing column raises.\<close>

definition column_values :: "string \<Rightarrow> dataframe \<Rightarrow> error + cell list" where
  "column_values name df =
     (case index_of name (columns df) of
        None \<Rightarrow> Inl ColumnNotFoundError
      | Some j \<Rightarrow> Inr (map (\<lambda>r. r ! j) (rows df)))"

text \<open>\<^verbatim>\<open>pl.concat([df, missing_df])\<close>: vertical, the two schemas have to be the same.\<close>

definition concat_frames :: "dataframe \<Rightarrow> dataframe \<Rightarrow> error + dataframe" where
  "concat_frames a b =
     (if columns a = columns b then Inr (a\<lparr>rows := rows a @ rows b\<rparr>) else Inl ShapeError)"

text \<open>
  The body that \<^verbatim>\<open>_enhance_motivos_data\<close> and \<^verbatim>\<open>_enhance_paises_data\<close> share,
  with the \<^verbatim>\<open>diff_*\<close> method of each as the argument.  Every exception, the
  \<^verbatim>\<open>ImportError\<close> first, ends in \<^verbatim>\<open>return df\<close>; what the adapter has executed
  by then stays executed.
\<close>

definition enhance_data ::
  "reference_data \<Rightarrow> (cell set \<Rightarrow> error + dataframe option) \<Rightarrow> dataframe option \<Rightarrow>
   adapter option \<Rightarrow> string \<Rightarrow> dataframe option \<times> adapter option" where
  "enhance_data rd diff df db table_name =
     (if \<not> importable rd then (df, db)
      else if \<not> constructible rd then (df, db)
      else
        (case df of
           Some d \<Rightarrow>
             (case column_values ''codigo'' d of
                Inl e \<Rightarrow> (df, db)
              | Inr codes \<Rightarrow>
                  (case diff (set codes) of
                     Inl e \<Rightarrow> (df, db)
                   | Inr None \<Rightarrow> (df, db)
                   | Inr (Some missing_df) \<Rightarrow>
                       if 0 < height missing_df then
                         (case concat_frames d missing_df of
                            Inl e \<Rightarrow> (df, db)
                          | Inr enhanced_df \<Rightarrow> (Some enhanced_df, db))
                       else (df, db)))
         | None \<Rightarrow>
             (case db of
                None \<Rightarrow> (df, db)
              | Some a \<Rightarrow>
                  (let (codes, a1) = select_codigo table_name a in
                   case diff (set codes) of
                     Inl e \<Rightarrow> (df, Some a1)
                   | Inr None \<Rightarrow> (df, Some a1)
                   | Inr (Some missing_df) \<Rightarrow>
                       if 0 < height missing_df then
                         (let a2 = bulk_upsert missing_df table_name a1;
                              (final_count, a3) = select_count table_name a2
                          in (df, Some a3))
                       else (df, Some a1)))))"

definition enhance_motivos_data ::
  "reference_data \<Rightarrow> dataframe option \<Rightarrow> adapter option \<Rightarrow> string \<Rightarrow>
   dataframe option \<times> adapter option" where
  "enhance_motivos_data rd = enhance_data rd (diff_motivos_data rd)"

definition enhance_paises_data ::
  "reference_data \<Rightarrow> dataframe option \<Rightarrow> adapter option \<Rightarrow> string \<Rightarrow>
   dataframe option \<times> adapter option" where
  "enhance_paises_data rd = enhance_data rd (diff_paises_data rd)"

definition enhance_reference_data ::
  "reference_data \<Rightarrow> string \<Rightarrow> dataframe option \<Rightarrow> adapter option \<Rightarrow> string \<Rightarrow>
   dataframe option \<times> adapter option" where
  "enhance_reference_data rd file_type df db table_name =
     (case map_of REFERENCE_ENHANCEMENTS file_type of
        None \<Rightarrow> (df, db)
      | Some enhancement_config \<Rightarrow>
          if fst enhancement_config = ''serpro''
          then enhance_motivos_data rd df db table_name
          else if fst enhancement_config = ''hardcoded''
          then enhance_paises_data rd df db table_name
          else (df, db))"

section \<open>The encoding normalizer\<close>

text \<open>
  A file system maps a path to the bytes of the file.  Text is a list of 8-bit
  characters: the code points of ISO-8859-1.
\<close>

type_synonym filesystem = "string \<rightharpoonup> string"

record config =
  debug :: bool
  encoding_chunk_size :: nat
  max_file_size_mb :: nat

text \<open>Text mode reads with universal newlines.\<close>

fun universal_newlines :: "string \<Rightarrow> string" where
  "universal_newlines [] = []"
| "universal_newlines [c] = (if c = CHR 0x0D then [CHR 0x0A] else [c])"
| "universal_newlines (c # d # cs) =
     (if c = CHR 0x0D \<and> d = CHR 0x0A then CHR 0x0A # universal_newlines cs
      else if c = CHR 0x0D then CHR 0x0A # universal_newlines (d # cs)
      else c # universal_newlines (d # cs))"

definition utf8_char :: "char \<Rightarrow> string" where
  "utf8_char c =
     (let n = of_char c :: nat
      in if n < 128 then [c] else [char_of (192 + n div 64), char_of (128 + n mod 64)])"

definition utf8_encode :: "string \<Rightarrow> string" where
  "utf8_encode s = concat (map utf8_char s)"

text \<open>
  Where the conversion's I/O fails, if it does: opening either file, the read or the
  write of the chunk with the given number (from 0), closing the files, or the
  \<^verbatim>\<open>stat\<close> of the finished output.
\<close>

datatype io_fault =
    NoFault
  | OpenInputFails
  | OpenOutputFails
  | ReadFails nat
  | WriteFails nat
  | CloseFails
  | StatOutputFails

definition file_bytes :: "filesystem \<Rightarrow> string \<Rightarrow> string" where
  "file_bytes fs p = (case fs p of None \<Rightarrow> [] | Some b \<Rightarrow> b)"

text \<open>
  The \<^verbatim>\<open>while True\<close> loop: \<open>pending\<close> is the text not yet read.  The result is the
  error raised, if any, the chunk counter and the file system at that moment.
\<close>

function copy_chunks ::
  "nat \<Rightarrow> io_fault \<Rightarrow> string \<Rightarrow> nat \<Rightarrow> string \<Rightarrow> filesystem \<Rightarrow> error option \<times> nat \<times> filesystem" where
  "copy_chunks n fault out chunk_count pending fs =
     (if fault = ReadFails chunk_count then (Some OSError, chunk_count, fs)
      else
        (let chunk = take n pending in
         if chunk = [] then (None, chunk_count, fs)
         else if fault = WriteFails chunk_count then (Some OSError, chunk_count, fs)
         else copy_chunks n fault out (chunk_count + 1) (drop n pending)
                (fs(out \<mapsto> file_bytes fs out @ utf8_encode chunk))))"
  by pat_completeness auto
termination
  by (relation "measure (\<lambda>(n, fault, out, chunk_count, pending, fs). length pending)") auto

declare copy_chunks.simps [simp del]

text \<open>The body of the \<^verbatim>\<open>try\<close> block.\<close>

definition convert_try ::
  "config \<Rightarrow> io_fault \<Rightarrow> filesystem \<Rightarrow> string \<Rightarrow> string \<Rightarrow> error option \<times> filesystem" where
  "convert_try cfg fault fs input_file out =
     (if fault = OpenInputFails then (Some OSError, fs)
      else if fault = OpenOutputFails then (Some OSError, fs)
      else
        (let fs1 = fs(out \<mapsto> []);
             text = universal_newlines (file_bytes fs1 input_file);
             (err, chunk_count, fs2) =
               copy_chunks (encoding_chunk_size cfg) fault out 0 text fs1
         in case err of
              Some e \<Rightarrow> (Some e, fs2)
            | None \<Rightarrow>
                if fault = CloseFails then (Some OSError, fs2)
                else if fault = StatOutputFails then (Some OSError, fs2)
                else (None, fs2)))"

text \<open>
  \<open>tmp\<close> is the path that \<^verbatim>\<open>tempfile.mkstemp\<close> creates when no output file is
  given.  The size of the input is taken before the \<^verbatim>\<open>try\<close> block; inside it every
  exception runs the handler, which unlinks the output file if it exists and raises again.
\<close>

definition convert_file_encoding_chunked ::
  "config \<Rightarrow> io_fault \<Rightarrow> string \<Rightarrow> filesystem \<Rightarrow> string \<Rightarrow> string option \<Rightarrow>
   (error + string) \<times> filesystem" where
  "convert_file_encoding_chunked cfg fault tmp fs input_file output_file =
     (let (out, fs0) =
            (case output_file of None \<Rightarrow> (tmp, fs(tmp \<mapsto> [])) | Some p \<Rightarrow> (p, fs))
      in case fs0 input_file of
           None \<Rightarrow> (Inl FileNotFoundError, fs0)
         | Some b \<Rightarrow>
             (case convert_try cfg fault fs0 input_file out of
                (Some e, fs1) \<Rightarrow> (Inl e, fs1(out := None))
              | (None, fs1) \<Rightarrow> (Inr out, fs1)))"

section \<open>The processor\<close>

definition upper_char :: "char \<Rightarrow> char" where
  "upper_char c =
     (let n = of_char c :: nat in if 97 \<le> n \<and> n \<le> 122 then char_of (n - 32) else c)"

fun contains :: "string \<Rightarrow> string \<Rightarrow> bool" where
  "contains p [] \<longleftrightarrow> p = []"
| "contains p (c # cs) \<longleftrightarrow> take (length p) (c # cs) = p \<or> contains p cs"

text \<open>The first pattern, in the order of \<^verbatim>\<open>FILE_MAPPINGS\<close>, that the upper-cased name contains.\<close>

definition get_file_type :: "string \<Rightarrow> string option" where
  "get_file_type filename =
     find (\<lambda>pattern. contains pattern (map upper_char filename)) (map fst FILE_MAPPINGS)"

text \<open>\<^verbatim>\<open>file_path.name\<close>: the last component of the path.\<close>

definition path_name :: "string \<Rightarrow> string" where
  "path_name p = rev (takeWhile (\<lambda>c. c \<noteq> CHR ''/'') (rev p))"

datatype result = ResultNone | ResultPair dataframe string

subsection \<open>The chunked loader\<close>

lemma length_rows_with_column: "length (rows (with_column c f df)) = length (rows df)"
  by (simp add: with_column_def split: option.splits)

lemma length_rows_convert_columns:
  "length (rows (convert_columns f cols df)) = length (rows df)"
  unfolding convert_columns_def
  by (induction cols arbitrary: df) (simp_all add: length_rows_with_column)

lemma height_apply_transformations: "height (apply_transformations df ft) = height df"
  by (simp add: height_def apply_transformations_def Let_def transform_country_codes_def
        length_rows_convert_columns length_rows_with_column rename_def)

text \<open>
  The \<^verbatim>\<open>while True\<close> loop of \<^verbatim>\<open>_process_large_file_chunked\<close> over its variables
  \<open>offset\<close>, \<open>batch_num\<close>, \<open>total_processed\<close> and the adapter; \<open>chunk_size\<close> is
  the window size.  With a window size of 0 every window is empty, so the remainder by
  \<open>chunk_size\<close> is never taken.
\<close>

function chunk_loop ::
  "nat \<Rightarrow> string \<Rightarrow> string \<Rightarrow> csv_file \<Rightarrow> nat \<Rightarrow> nat \<Rightarrow> nat \<Rightarrow> adapter \<Rightarrow>
   nat \<times> nat \<times> nat \<times> adapter" where
  "chunk_loop chunk_size file_type table_name f offset batch_num total_processed db =
     (let batch_num1 = batch_num + 1;
          chunk_df = read_csv f offset (Some chunk_size)
      in if height chunk_df = 0 then (offset, batch_num1, total_processed, db)
         else
           (let chunk_df1 = apply_transformations chunk_df file_type;
                db1 = bulk_upsert chunk_df1 table_name db;
                total_processed1 = total_processed + height chunk_df1;
                offset1 = offset + height chunk_df1
            in if offset1 mod chunk_size \<noteq> 0
               then (offset1, batch_num1, total_processed1, db1)
               else chunk_loop chunk_size file_type table_name f offset1 batch_num1
                      total_processed1 db1))"
  by pat_completeness auto
termination
proof (relation "measure (\<lambda>(chunk_size, file_type, table_name, f, offset, batch_num,
    total_processed, db). length (records f) - offset)")
  show "wf (measure (\<lambda>(chunk_size, file_type, table_name, f, offset, batch_num,
    total_processed, db). length (records f) - offset))"
    by simp
next
  fix chunk_size :: nat and file_type table_name :: string and f :: csv_file
    and offset batch_num total_processed :: nat and db :: adapter
    and batch_num1 chunk_df chunk_df1 db1 total_processed1 offset1
  assume chunk: "chunk_df = read_csv f offset (Some chunk_size)"
    and nonempty: "height chunk_df \<noteq> 0"
    and chunk1: "chunk_df1 = apply_transformations chunk_df file_type"
    and off: "offset1 = offset + height chunk_df1"
  from chunk nonempty have "offset < length (records f)"
    by (auto simp: read_csv_def height_def)
  moreover from chunk1 nonempty have "0 < height chunk_df1"
    by (simp add: height_apply_transformations)
  ultimately show "((chunk_size, file_type, table_name, f, offset1, batch_num1,
      total_processed1, db1),
     (chunk_size, file_type, table_name, f, offset, batch_num, total_processed, db))
    \<in> measure (\<lambda>(chunk_size, file_type, table_name, f, offset, batch_num,
        total_processed, db). length (records f) - offset)"
    using off by simp
qed

declare chunk_loop.simps [simp del]

text \<open>
  \<^verbatim>\<open>_process_large_file_chunked\<close> with the window size as a parameter; \<open>db\<close> is the
  adapter that \<^verbatim>\<open>create_database_adapter\<close> returns.  The sample of 100 rows only
  feeds a debug message.
\<close>

definition process_large_file_chunked_with ::
  "nat \<Rightarrow> reference_data \<Rightarrow> csv_file \<Rightarrow> string \<Rightarrow> adapter \<Rightarrow> (error + result) \<times> adapter" where
  "process_large_file_chunked_with chunk_size rd f file_type db =
     (case map_of FILE_MAPPINGS file_type of
        None \<Rightarrow> (Inl KeyError, db)
      | Some table_name \<Rightarrow>
          (let sample_df = apply_transformations (read_csv f 0 (Some 100)) file_type;
               expected_columns = columns sample_df;
               (offset, batch_num, total_processed, db1) =
                 chunk_loop chunk_size file_type table_name f 0 0 0 db;
               db2 = (if 0 < total_processed
                      then (case snd (enhance_reference_data rd file_type None (Some db1)
                                        table_name) of
                              None \<Rightarrow> db1
                            | Some a \<Rightarrow> a)
                      else db1)
           in (Inr ResultNone, db2)))"

definition process_large_file_chunked ::
  "reference_data \<Rightarrow> csv_file \<Rightarrow> string \<Rightarrow> adapter \<Rightarrow> (error + result) \<times> adapter" where
  "process_large_file_chunked = process_large_file_chunked_with 1000000"

subsection \<open>process_file\<close>

text \<open>The \<^verbatim>\<open>else\<close> branch of \<^verbatim>\<open>process_file\<close>: the file is read whole.\<close>

definition load_whole_file :: "reference_data \<Rightarrow> csv_file \<Rightarrow> string \<Rightarrow> error + result" where
  "load_whole_file rd f file_type =
     (let df = apply_transformations (read_csv f 0 None) file_type
      in case map_of FILE_MAPPINGS file_type of
           None \<Rightarrow> Inl KeyError
         | Some table_name \<Rightarrow>
             (case fst (enhance_reference_data rd file_type (Some df) None table_name) of
                None \<Rightarrow> Inr (ResultPair df table_name)
              | Some enhanced_df \<Rightarrow> Inr (ResultPair enhanced_df table_name)))"

record world =
  files :: filesystem
  database :: adapter

text \<open>
  \<open>parse\<close> is the CSV reader's view of the bytes of a UTF-8 file.  The size test
  \<^verbatim>\<open>st_size / (1024 * 1024) > max_file_size_mb\<close> is written without the division.
  The \<^verbatim>\<open>finally\<close> clause unlinks the converted file on every path that has one.
\<close>

definition process_file ::
  "config \<Rightarrow> (string \<Rightarrow> csv_file) \<Rightarrow> reference_data \<Rightarrow> io_fault \<Rightarrow> string \<Rightarrow> string \<Rightarrow>
   world \<Rightarrow> (error + result) \<times> world" where
  "process_file cfg parse rd fault tmp file_path w =
     (case files w file_path of
        None \<Rightarrow> (Inl FileNotFoundError, w)
      | Some b \<Rightarrow>
          (case get_file_type (path_name file_path) of
             None \<Rightarrow> (Inl ValueError, w)
           | Some file_type \<Rightarrow>
               (case convert_file_encoding_chunked cfg fault tmp (files w) file_path None of
                  (Inl e, fs1) \<Rightarrow> (Inl e, w\<lparr>files := fs1\<rparr>)
                | (Inr utf8_file, fs1) \<Rightarrow>
                    (let utf8_bytes = file_bytes fs1 utf8_file;
                         f = parse utf8_bytes;
                         (res, db1) =
                           (if max_file_size_mb cfg * 1048576 < length utf8_bytes
                            then process_large_file_chunked rd f file_type (database w)
                            else (load_whole_file rd f file_type, database w))
                     in (res, \<lparr>files = fs1(utf8_file := None), database = db1\<rparr>)))))"

text \<open>
  Modelled from the spec: the per-file orchestration that calls \<^verbatim>\<open>process_file\<close>
  is not among the sources.  On the whole-file path the frame that \<^verbatim>\<open>process_file\<close>
  returns goes to storage in a single bulk upsert.
\<close>

definition whole_file_path ::
  "reference_data \<Rightarrow> csv_file \<Rightarrow> string \<Rightarrow> adapter \<Rightarrow> adapter" where
  "whole_file_path rd f file_type db =
     (case load_whole_file rd f file_type of
        Inr (ResultPair df table_name) \<Rightarrow> bulk_upsert df table_name db
      | _ \<Rightarrow> db)"

definition chunked_path ::
  "nat \<Rightarrow> reference_data \<Rightarrow> csv_file \<Rightarrow> string \<Rightarrow> adapter \<Rightarrow> adapter" where
  "chunked_path chunk_size rd f file_type db =
     snd (process_large_file_chunked_with chunk_size rd f file_type db)"

section \<open>Properties\<close>

text \<open>
  C10.  For every table name, \<^verbatim>\<open>bulk_upsert\<close> on a frame of zero rows (whatever its
  columns) returns before it connects or executes a statement: the adapter state, that
  is the connection, the tables and the list of executed statements, is the one it was
  called with.
\<close>

theorem bulk_upsert_empty_unchanged:
  "bulk_upsert \<lparr>columns = cols, rows = []\<rparr> table a = a"
  by (simp add: bulk_upsert_def height_def)


subsection \<open>Column names and the shape of the transformer\<close>

lemma str_of_nat_nonempty: "str_of_nat n \<noteq> []"
  by (subst str_of_nat.simps) simp

lemma digit_nth_inj:
  "a < 10 \<Longrightarrow> b < 10 \<Longrightarrow> digit_chars ! a = digit_chars ! b \<Longrightarrow> a = b"
proof -
  assume a: "a < 10" and b: "b < 10" and e: "digit_chars ! a = digit_chars ! b"
  have d: "distinct digit_chars" by (simp add: digit_chars_def)
  have l: "length digit_chars = 10" by (simp add: digit_chars_def)
  from d a b l e show "a = b" by (simp add: nth_eq_iff_index_eq)
qed

lemma str_of_nat_inj: "str_of_nat a = str_of_nat b \<Longrightarrow> a = b"
proof (induction a arbitrary: b rule: str_of_nat.induct)
  case (1 n)
  show ?case
  proof (cases "n < 10")
    case True
    note n = True
    show ?thesis
    proof (cases "b < 10")
      case True
      with n "1.prems" show ?thesis
        by (simp add: str_of_nat.simps [of n] str_of_nat.simps [of b] digit_nth_inj)
    next
      case False
      with n "1.prems" str_of_nat_nonempty [of "b div 10"] show ?thesis
        by (auto simp: str_of_nat.simps [of n] str_of_nat.simps [of b])
    qed
  next
    case False
    note n = False
    show ?thesis
    proof (cases "b < 10")
      case True
      with n "1.prems" str_of_nat_nonempty [of "n div 10"] show ?thesis
        by (auto simp: str_of_nat.simps [of n] str_of_nat.simps [of b])
    next
      case False
      with n "1.prems" have e: "str_of_nat (n div 10) = str_of_nat (b div 10)"
        and d: "digit_chars ! (n mod 10) = digit_chars ! (b mod 10)"
        by (simp_all add: str_of_nat.simps [of n] str_of_nat.simps [of b])
      from "1.IH" [OF n e] have "n div 10 = b div 10" .
      moreover from d have "n mod 10 = b mod 10" by (simp add: digit_nth_inj)
      ultimately show ?thesis by (metis div_mult_mod_eq)
    qed
  qed
qed

lemma index_of_None_iff: "index_of x xs = None \<longleftrightarrow> x \<notin> set xs"
  by (induction xs) auto

lemma index_of_nth_distinct:
  "distinct xs \<Longrightarrow> j < length xs \<Longrightarrow> index_of (xs ! j) xs = Some j"
proof (induction xs arbitrary: j)
  case Nil
  then show ?case by simp
next
  case (Cons y ys)
  then show ?case by (cases j) auto
qed

lemma index_of_SomeD: "index_of x xs = Some j \<Longrightarrow> j < length xs \<and> xs ! j = x"
proof (induction xs arbitrary: j)
  case Nil
  then show ?case by simp
next
  case (Cons y ys)
  then show ?case by (auto split: if_splits)
qed

lemma columns_with_column [simp]: "columns (with_column c f df) = columns df"
  by (simp add: with_column_def split: option.splits)

lemma columns_convert_columns [simp]: "columns (convert_columns f cols df) = columns df"
  unfolding convert_columns_def by (induction cols arbitrary: df) simp_all

definition update_row :: "(cell \<Rightarrow> cell) \<Rightarrow> string list \<Rightarrow> string list \<Rightarrow> cell list \<Rightarrow> cell list" where
  "update_row f cols names r =
     fold (\<lambda>col r. case index_of col names of None \<Rightarrow> r | Some j \<Rightarrow> r[j := f (r ! j)]) cols r"

lemma rows_convert_columns:
  "rows (convert_columns f cols df) = map (update_row f cols (columns df)) (rows df)"
proof (induction cols arbitrary: df)
  case Nil
  show ?case by (simp add: convert_columns_def update_row_def)
next
  case (Cons c cs)
  have step: "convert_columns f (c # cs) df =
      convert_columns f cs (if c \<in> set (columns df) then with_column c f df else df)"
    by (simp add: convert_columns_def)
  show ?case
    unfolding step
    by (simp add: Cons.IH update_row_def with_column_def index_of_None_iff [symmetric]
          split: option.splits)
qed

lemma length_update_row [simp]: "length (update_row f cols names r) = length r"
  unfolding update_row_def by (induction cols arbitrary: r) (simp_all split: option.splits)

lemma update_row_nth:
  assumes "distinct names" "j < length names" "j < length r" "distinct cols"
  shows "update_row f cols names r ! j = (if names ! j \<in> set cols then f (r ! j) else r ! j)"
  using assms(3,4)
proof (induction cols arbitrary: r)
  case Nil
  show ?case by (simp add: update_row_def)
next
  case (Cons c cs)
  have step: "update_row f (c # cs) names r =
      update_row f cs names (case index_of c names of None \<Rightarrow> r | Some k \<Rightarrow> r[k := f (r ! k)])"
    by (simp add: update_row_def)
  show ?case
  proof (cases "index_of c names")
    case None
    then have "names ! j \<noteq> c" using assms(2) by (auto simp: index_of_None_iff)
    with None Cons show ?thesis by (simp add: step)
  next
    case (Some k)
    then have k: "k < length names" "names ! k = c" by (auto dest: index_of_SomeD)
    show ?thesis
    proof (cases "k = j")
      case True
      with k Some Cons show ?thesis by (auto simp: step)
    next
      case False
      with k assms(1,2) have "names ! j \<noteq> c" by (auto simp: nth_eq_iff_index_eq)
      with False Some Cons show ?thesis by (simp add: step)
    qed
  qed
qed

lemma column_mapping_distinct: "distinct (dict_get COLUMN_MAPPINGS ft [])"
  by (simp add: dict_get_def COLUMN_MAPPINGS_def)

lemma column_mapping_not_default:
  "list_all (\<lambda>c. take 7 c \<noteq> ''column_'') (dict_get COLUMN_MAPPINGS ft [])"
  by (simp add: dict_get_def COLUMN_MAPPINGS_def)

lemma distinct_new_columns:
  assumes "distinct m" "list_all (\<lambda>c. take 7 c \<noteq> ''column_'') m"
  shows "distinct (new_columns m n)"
proof -
  let ?f = "\<lambda>i. if i < length m then m ! i else ''column_'' @ str_of_nat i"
  have "inj_on ?f (set [0..<n])"
  proof (rule inj_onI)
    fix i j
    assume e: "?f i = ?f j"
    have nd: "\<And>k s. k < length m \<Longrightarrow> m ! k \<noteq> ''column_'' @ s"
    proof
      fix k s
      assume k: "k < length m" and "m ! k = ''column_'' @ s"
      then have "take 7 (m ! k) = ''column_''" by simp
      moreover from assms(2) k have "take 7 (m ! k) \<noteq> ''column_''"
        by (simp add: list_all_length)
      ultimately show False by simp
    qed
    show "i = j"
    proof (cases "i < length m")
      case True
      note i = True
      show ?thesis
      proof (cases "j < length m")
        case True
        with i e assms(1) show ?thesis by (simp add: nth_eq_iff_index_eq)
      next
        case False
        with i e nd [of i "str_of_nat j"] show ?thesis by simp
      qed
    next
      case False
      note i = False
      show ?thesis
      proof (cases "j < length m")
        case True
        with i e nd [of j "str_of_nat i"] show ?thesis by simp
      next
        case False
        with i e show ?thesis by (simp add: str_of_nat_inj)
      qed
    qed
  qed
  then show ?thesis by (simp add: new_columns_def distinct_map)
qed

lemma length_new_columns [simp]: "length (new_columns m n) = n"
  by (simp add: new_columns_def)

lemma rename_zip:
  assumes "distinct xs" "length ys = length xs"
  shows "map (\<lambda>c. dict_get (zip xs ys) c c) xs = ys"
proof (rule nth_equalityI)
  show "length (map (\<lambda>c. dict_get (zip xs ys) c c) xs) = length ys"
    using assms by simp
next
  fix i
  assume "i < length (map (\<lambda>c. dict_get (zip xs ys) c c) xs)"
  then have i: "i < length xs" by simp
  with assms have "map_of (zip xs ys) (xs ! i) = Some (ys ! i)"
    by (simp add: map_of_zip_nth)
  with i show "map (\<lambda>c. dict_get (zip xs ys) c c) xs ! i = ys ! i"
    by (simp add: dict_get_def)
qed

definition out_columns :: "string \<Rightarrow> string list \<Rightarrow> string list" where
  "out_columns file_type cols =
     (let col_mapping = dict_get COLUMN_MAPPINGS file_type []
      in if col_mapping \<noteq> []
         then map (\<lambda>c. dict_get (zip cols (new_columns col_mapping (length cols))) c c) cols
         else cols)"

definition transform_row :: "string \<Rightarrow> string list \<Rightarrow> cell list \<Rightarrow> cell list" where
  "transform_row file_type names r =
     (let r1 = update_row numeric_cell (dict_get NUMERIC_COLUMNS file_type []) names r;
          r2 = update_row date_cell (dict_get DATE_COLUMNS file_type []) names r1
      in if file_type = ''ESTABELE'' then update_row country_cell [''pais''] names r2 else r2)"

lemma transform_country_codes_eq:
  "transform_country_codes df = convert_columns country_cell [''pais''] df"
  by (simp add: transform_country_codes_def convert_columns_def)

lemma columns_rename [simp]: "columns (rename d df) = map (\<lambda>c. dict_get d c c) (columns df)"
  by (simp add: rename_def)

lemma rows_rename [simp]: "rows (rename d df) = rows df"
  by (simp add: rename_def)

lemma columns_apply_transformations:
  "columns (apply_transformations df ft) = out_columns ft (columns df)"
  by (simp add: apply_transformations_def out_columns_def Let_def transform_country_codes_eq)

lemma rows_apply_transformations:
  "rows (apply_transformations df ft) =
     map (transform_row ft (out_columns ft (columns df))) (rows df)"
  by (simp add: apply_transformations_def out_columns_def Let_def transform_country_codes_eq
        rows_convert_columns transform_row_def)

lemma out_columns_distinct:
  assumes "distinct cols"
  shows "out_columns ft cols =
           (if dict_get COLUMN_MAPPINGS ft [] \<noteq> []
            then new_columns (dict_get COLUMN_MAPPINGS ft []) (length cols) else cols)"
  using assms by (simp add: out_columns_def Let_def rename_zip)

lemma distinct_out_columns: "distinct cols \<Longrightarrow> distinct (out_columns ft cols)"
  by (simp add: out_columns_distinct distinct_new_columns column_mapping_distinct
        column_mapping_not_default)

lemma length_out_columns [simp]: "length (out_columns ft cols) = length cols"
  by (simp add: out_columns_def Let_def)

lemma numeric_columns_distinct: "distinct (dict_get NUMERIC_COLUMNS ft [])"
  by (simp add: dict_get_def NUMERIC_COLUMNS_def)

lemma date_columns_distinct: "distinct (dict_get DATE_COLUMNS ft [])"
  by (simp add: dict_get_def DATE_COLUMNS_def)

lemma transform_row_nth:
  assumes "distinct names" "j < length names" "length r = length names"
  shows "transform_row ft names r ! j =
    (let c = names ! j; x = r ! j;
         x1 = (if c \<in> set (dict_get NUMERIC_COLUMNS ft []) then numeric_cell x else x);
         x2 = (if c \<in> set (dict_get DATE_COLUMNS ft []) then date_cell x1 else x1)
     in if ft = ''ESTABELE'' \<and> c = ''pais'' then country_cell x2 else x2)"
  using assms
  by (auto simp: transform_row_def Let_def update_row_nth numeric_columns_distinct
        date_columns_distinct)

lemma valid_frame_apply_transformations:
  "valid_frame df \<Longrightarrow> valid_frame (apply_transformations df ft)"
  by (simp add: valid_frame_def columns_apply_transformations rows_apply_transformations
        distinct_out_columns list_all_iff transform_row_def Let_def)

lemma apply_transformations_cell:
  assumes "valid_frame df" "i < height df" "j < length (columns df)"
  shows "rows (apply_transformations df ft) ! i ! j =
    (let c = columns (apply_transformations df ft) ! j; x = rows df ! i ! j;
         x1 = (if c \<in> set (dict_get NUMERIC_COLUMNS ft []) then numeric_cell x else x);
         x2 = (if c \<in> set (dict_get DATE_COLUMNS ft []) then date_cell x1 else x1)
     in if ft = ''ESTABELE'' \<and> c = ''pais'' then country_cell x2 else x2)"
proof -
  from assms have len: "length (rows df ! i) = length (columns df)"
    by (simp add: valid_frame_def list_all_length height_def)
  from assms(1) have d: "distinct (out_columns ft (columns df))"
    by (simp add: valid_frame_def distinct_out_columns)
  from assms(2) have "rows (apply_transformations df ft) ! i =
      transform_row ft (out_columns ft (columns df)) (rows df ! i)"
    by (simp add: rows_apply_transformations height_def)
  with d len assms(3) show ?thesis
    by (simp add: transform_row_nth columns_apply_transformations)
qed

subsection \<open>The cell rules of the transformer\<close>

lemma cast_float64_examples:
  "cast_float64 ''1234.56'' = Some (123456 / 100)"
  "cast_float64 ''abc'' = None"
  by (simp_all add: cast_float64_def split_sign_def is_digit_def digit_chars_def
        parse_exponent_def digits_value_def digit_value_def)

lemma date_cell_eq: "date_cell x = (if x = Str ''0'' then Null else x)"
  by (cases x) simp_all

lemma date_column_only:
  "c \<in> set (dict_get DATE_COLUMNS ft []) \<Longrightarrow>
     c \<notin> set (dict_get NUMERIC_COLUMNS ft []) \<and> c \<noteq> ''pais''"
  by (auto simp: dict_get_def DATE_COLUMNS_def NUMERIC_COLUMNS_def split: if_splits)

lemma numeric_column_only:
  "c \<in> set (dict_get NUMERIC_COLUMNS ft []) \<Longrightarrow>
     c \<notin> set (dict_get DATE_COLUMNS ft []) \<and> ft \<noteq> ''ESTABELE''"
  by (auto simp: dict_get_def DATE_COLUMNS_def NUMERIC_COLUMNS_def split: if_splits)

lemma apply_transformations_row_alone:
  assumes "i < height df"
  shows "rows (apply_transformations df ft) ! i =
         hd (rows (apply_transformations (df\<lparr>rows := [rows df ! i]\<rparr>) ft))"
  using assms by (simp add: rows_apply_transformations height_def)

text \<open>
  C6.  In a numeric column of a category (a column whose new name is listed for the
  category in \<^verbatim>\<open>NUMERIC_COLUMNS\<close>), the text \<open>1234,56\<close> becomes the number 1234.56
  and \<open>abc\<close>, like every text the cast cannot read, becomes null.  The batch is not
  aborted: the result has as many rows as the input, and every row of the result is what
  the transformer makes of that row alone.
\<close>

theorem numeric_decimal_coercion:
  assumes "valid_frame df" and "i < height df" and "j < length (columns df)"
    and "columns (apply_transformations df ft) ! j \<in> set (dict_get NUMERIC_COLUMNS ft [])"
  shows "(rows df ! i ! j = Str ''1234,56'' \<longrightarrow>
            rows (apply_transformations df ft) ! i ! j = Float64 (123456 / 100))
       \<and> (rows df ! i ! j = Str ''abc'' \<longrightarrow> rows (apply_transformations df ft) ! i ! j = Null)
       \<and> (\<forall>s. rows df ! i ! j = Str s
               \<and> cast_float64 (str_replace_first CHR '','' CHR ''.'' s) = None \<longrightarrow>
             rows (apply_transformations df ft) ! i ! j = Null)
       \<and> height (apply_transformations df ft) = height df
       \<and> (\<forall>k < height df.
             rows (apply_transformations df ft) ! k =
             hd (rows (apply_transformations (df\<lparr>rows := [rows df ! k]\<rparr>) ft)))"
proof -
  from numeric_column_only [OF assms(4)]
  have only: "columns (apply_transformations df ft) ! j \<notin> set (dict_get DATE_COLUMNS ft [])"
    "ft \<noteq> ''ESTABELE''" by simp_all
  from apply_transformations_cell [OF assms(1-3), of ft] assms(4) only
  have cell: "rows (apply_transformations df ft) ! i ! j = numeric_cell (rows df ! i ! j)"
    by (simp add: Let_def)
  show ?thesis
    by (simp add: cell cast_float64_examples apply_transformations_row_alone
          height_apply_transformations)
qed

text \<open>
  C7.  In a date column of a category (a column whose new name is listed for the category
  in \<^verbatim>\<open>DATE_COLUMNS\<close>), the value \<open>0\<close> becomes null and every other value, null
  included, is passed through unchanged.
\<close>

theorem date_sentinel_cleanup:
  assumes "valid_frame df" and "i < height df" and "j < length (columns df)"
    and "columns (apply_transformations df ft) ! j \<in> set (dict_get DATE_COLUMNS ft [])"
  shows "rows (apply_transformations df ft) ! i ! j =
           (if rows df ! i ! j = Str ''0'' then Null else rows df ! i ! j)"
proof -
  from date_column_only [OF assms(4)]
  have only: "columns (apply_transformations df ft) ! j \<notin> set (dict_get NUMERIC_COLUMNS ft [])"
    "columns (apply_transformations df ft) ! j \<noteq> ''pais''" by simp_all
  from apply_transformations_cell [OF assms(1-3), of ft] assms(4) only
  show ?thesis by (simp add: Let_def date_cell_eq)
qed

lemma estabele_pais_column:
  assumes "distinct cols" "9 < length cols"
  shows "out_columns ''ESTABELE'' cols ! 9 = ''pais''"
  using assms
  by (simp add: out_columns_distinct new_columns_def)
     (simp add: dict_get_def COLUMN_MAPPINGS_def)

text \<open>
  C8.  For the establishment category the tenth column is the country code \<open>pais\<close>:
  \<open>76\<close> becomes \<open>076\<close>, the empty text and null stay as they are (every other text
  is stripped and padded with zeros to three characters).
\<close>

theorem country_code_padding:
  assumes "valid_frame df" and "i < height df" and "9 < length (columns df)"
  shows "columns (apply_transformations df ''ESTABELE'') ! 9 = ''pais''
       \<and> rows (apply_transformations df ''ESTABELE'') ! i ! 9 =
           (if rows df ! i ! 9 = Str ''76'' then Str ''076''
            else if rows df ! i ! 9 = Str '''' then Str ''''
            else if rows df ! i ! 9 = Null then Null
            else country_cell (rows df ! i ! 9))"
proof -
  from assms have c: "columns (apply_transformations df ''ESTABELE'') ! 9 = ''pais''"
    by (simp add: columns_apply_transformations estabele_pais_column valid_frame_def)
  have nd: "''pais'' \<notin> set (dict_get NUMERIC_COLUMNS ''ESTABELE'' [])"
    "''pais'' \<notin> set (dict_get DATE_COLUMNS ''ESTABELE'' [])"
    by (simp_all add: dict_get_def NUMERIC_COLUMNS_def DATE_COLUMNS_def)
  from assms(3) have j: "9 < length (columns df)" .
  from apply_transformations_cell [OF assms(1,2) j, of "''ESTABELE''"] c nd
  have "rows (apply_transformations df ''ESTABELE'') ! i ! 9 = country_cell (rows df ! i ! 9)"
    by (simp add: Let_def)
  moreover have "country_cell (Str ''76'') = Str ''076''"
    by (simp add: zfill_def strip_chars_def is_space_def)
  ultimately show ?thesis using c by simp
qed


definition example_empresas :: dataframe where
  "example_empresas =
     \<lparr>columns = [''column_1'', ''column_2'', ''column_3'', ''column_4'', ''column_5''],
      rows = [[Str ''1'', Null, Null, Null, Str ''1234,56''],
              [Str ''2'', Null, Null, Null, Str ''abc''],
              [Str ''3'', Null, Null, Null, Str ''7'']]\<rparr>"

definition example_simples :: dataframe where
  "example_simples =
     \<lparr>columns = [''column_1'', ''column_2'', ''column_3''],
      rows = [[Str ''1'', Str ''S'', Str ''0''],
              [Str ''2'', Str ''N'', Str ''20200131'']]\<rparr>"

definition example_estabele :: dataframe where
  "example_estabele =
     \<lparr>columns = [''column_1'', ''column_2'', ''column_3'', ''column_4'', ''column_5'',
                 ''column_6'', ''column_7'', ''column_8'', ''column_9'', ''column_10''],
      rows = [[Str ''1'', Null, Null, Null, Null, Null, Str ''0'', Null, Null, Str ''76''],
              [Str ''2'', Null, Null, Null, Null, Null, Null, Null, Null, Str []],
              [Str ''3'', Null, Null, Null, Null, Null, Null, Null, Null, Null]]\<rparr>"

theorem numeric_decimal_coercion_witness:
  "rows (apply_transformations example_empresas ''EMPRECSV'') ! 0 ! 4 = Float64 (123456 / 100)
   \<and> rows (apply_transformations example_empresas ''EMPRECSV'') ! 1 ! 4 = Null
   \<and> height (apply_transformations example_empresas ''EMPRECSV'') = 3"
proof -
  have v: "valid_frame example_empresas" by (simp add: valid_frame_def example_empresas_def)
  have j: "4 < length (columns example_empresas)" by (simp add: example_empresas_def)
  have c: "columns (apply_transformations example_empresas ''EMPRECSV'') ! 4
             \<in> set (dict_get NUMERIC_COLUMNS ''EMPRECSV'' [])"
    by (simp add: columns_apply_transformations out_columns_distinct new_columns_def
          dict_get_def COLUMN_MAPPINGS_def NUMERIC_COLUMNS_def example_empresas_def)
  have i0: "0 < height example_empresas" and i1: "1 < height example_empresas"
    by (simp_all add: height_def example_empresas_def)
  have in0: "rows example_empresas ! 0 ! 4 = Str ''1234,56''"
    and in1: "rows example_empresas ! 1 ! 4 = Str ''abc''"
    and h: "height example_empresas = 3"
    by (simp_all add: example_empresas_def height_def)
  from numeric_decimal_coercion [OF v i0 j c] in0
  have "rows (apply_transformations example_empresas ''EMPRECSV'') ! 0 ! 4 = Float64 (123456 / 100)"
    by blast
  moreover from numeric_decimal_coercion [OF v i1 j c] in1
  have "rows (apply_transformations example_empresas ''EMPRECSV'') ! 1 ! 4 = Null"
    by blast
  moreover from numeric_decimal_coercion [OF v i0 j c] h
  have "height (apply_transformations example_empresas ''EMPRECSV'') = 3"
    by metis
  ultimately show ?thesis by blast
qed

theorem date_sentinel_cleanup_witness:
  "rows (apply_transformations example_simples ''SIMPLESCSV'') ! 0 ! 2 = Null
   \<and> rows (apply_transformations example_simples ''SIMPLESCSV'') ! 1 ! 2 = Str ''20200131''"
proof -
  have v: "valid_frame example_simples" by (simp add: valid_frame_def example_simples_def)
  have j: "2 < length (columns example_simples)" by (simp add: example_simples_def)
  have c: "columns (apply_transformations example_simples ''SIMPLESCSV'') ! 2
             \<in> set (dict_get DATE_COLUMNS ''SIMPLESCSV'' [])"
    by (simp add: columns_apply_transformations out_columns_distinct new_columns_def
          dict_get_def COLUMN_MAPPINGS_def DATE_COLUMNS_def example_simples_def)
  have i0: "0 < height example_simples" and i1: "1 < height example_simples"
    by (simp_all add: height_def example_simples_def)
  from date_sentinel_cleanup [OF v i0 j c] date_sentinel_cleanup [OF v i1 j c]
  show ?thesis by (simp add: example_simples_def)
qed

theorem country_code_padding_witness:
  "rows (apply_transformations example_estabele ''ESTABELE'') ! 0 ! 9 = Str ''076''
   \<and> rows (apply_transformations example_estabele ''ESTABELE'') ! 1 ! 9 = Str []
   \<and> rows (apply_transformations example_estabele ''ESTABELE'') ! 2 ! 9 = Null"
proof -
  have v: "valid_frame example_estabele" by (simp add: valid_frame_def example_estabele_def)
  have j: "9 < length (columns example_estabele)" by (simp add: example_estabele_def)
  have i0: "0 < height example_estabele" and i1: "1 < height example_estabele"
    and i2: "2 < height example_estabele"
    by (simp_all add: height_def example_estabele_def)
  from country_code_padding [OF v i0 j] country_code_padding [OF v i1 j]
    country_code_padding [OF v i2 j]
  show ?thesis by (simp add: example_estabele_def)
qed

end
